theory Spec2Isabelle
  imports Main "HOL-Library.Sublist"
begin

section \<open>Reloading game modules on the fly (src/utils/reloads.py)\<close>

text \<open>
  A shallow embedding of \<^verbatim>\<open>reload_modules\<close>, \<^verbatim>\<open>reload_scripts\<close>,
  \<^verbatim>\<open>reload_commands\<close> and \<^verbatim>\<open>cemit_info\<close>. Module identifiers and
  typeclass paths are Python strings, here \<^typ>\<open>string\<close>; Python lists and tuples are
  HOL lists.
\<close>

subsection \<open>Strings\<close>

text \<open>\<^verbatim>\<open>s.startswith(p)\<close>: the string \<open>p\<close> is an initial segment of \<open>s\<close>.\<close>

definition startswith :: "string \<Rightarrow> string \<Rightarrow> bool" where
  "startswith s p = prefix p s"

subsection \<open>The safety classifier of reload_modules\<close>

text \<open>
  The fields of a \<^verbatim>\<open>ScriptDB\<close> row that \<^verbatim>\<open>reload_modules\<close> reads:
  \<^verbatim>\<open>interval\<close> (an integer, \<open>-1\<close> when the script has no timer) and
  \<^verbatim>\<open>typeclass_path\<close> (a string or \<^verbatim>\<open>None\<close>). The field \<open>is_active\<close>
  (whether the script is currently running) is part of the script's runtime state;
  \<^verbatim>\<open>reload_modules\<close> never reads it.
\<close>

record script =
  interval :: int
  typeclass_path :: "string option"
  is_active :: bool

text \<open>Lines 37 and 38: the two tuples of path prefixes.\<close>

definition protected_dirs :: "string list" where
  "protected_dirs = [''src.'']"

definition except_dirs :: "string list" where
  "except_dirs = [''src.commands.default.'']"

text \<open>
  Python's truth value of \<^verbatim>\<open>scriptobj.typeclass_path\<close>: \<^verbatim>\<open>None\<close> and the empty
  string are false. The result is the path when it is true, and \<open>None\<close> when it is false.
\<close>

fun truthy_path :: "string option \<Rightarrow> string option" where
  "truthy_path None = None"
| "truthy_path (Some p) = (if p = [] then None else Some p)"

text \<open>
  Lines 45 to 49. The loop appends the typeclass path of every script with
  \<^verbatim>\<open>interval > -1\<close> and a true \<^verbatim>\<open>typeclass_path\<close>;
  \<^verbatim>\<open>list(set(...))\<close> then removes duplicates. Python leaves the order of the
  result open; it is only ever searched with \<^verbatim>\<open>any\<close>.
\<close>

fun collect_unsafe :: "string list \<Rightarrow> script list \<Rightarrow> string list" where
  "collect_unsafe acc [] = acc"
| "collect_unsafe acc (scriptobj # rest) =
     (if interval scriptobj > -1
      then (case truthy_path (typeclass_path scriptobj) of
              Some p \<Rightarrow> collect_unsafe (acc @ [p]) rest
            | None \<Rightarrow> collect_unsafe acc rest)
      else collect_unsafe acc rest)"

definition unsafe_modules :: "script list \<Rightarrow> string list" where
  "unsafe_modules all_scripts = remdups (collect_unsafe [] all_scripts)"

text \<open>Lines 51 to 53 and 54 to 56: the two closures of \<^verbatim>\<open>reload_modules\<close>.\<close>

definition safe_dir_to_reload :: "string \<Rightarrow> bool" where
  "safe_dir_to_reload modpath =
     (\<not> list_ex (\<lambda>pdir. startswith modpath pdir \<and>
                   \<not> list_ex (\<lambda>edir. startswith modpath edir) except_dirs)
          protected_dirs)"

definition safe_mod_to_reload :: "string list \<Rightarrow> string \<Rightarrow> bool" where
  "safe_mod_to_reload unsafe modpath =
     (\<not> list_ex (\<lambda>mpath. startswith mpath modpath) unsafe)"

text \<open>
  Lines 70 to 73: the four list comprehensions over the list returned by
  \<^verbatim>\<open>reimport.modified()\<close>. \<^verbatim>\<open>mod not in xs\<close> is membership by string equality.
\<close>

definition safe_dir_modified :: "string list \<Rightarrow> string list" where
  "safe_dir_modified modified = filter safe_dir_to_reload modified"

definition unsafe_dir_modified :: "string list \<Rightarrow> string list" where
  "unsafe_dir_modified modified =
     filter (\<lambda>md. md \<notin> set (safe_dir_modified modified)) modified"

definition safe_modified :: "string list \<Rightarrow> string list \<Rightarrow> string list" where
  "safe_modified unsafe modified =
     filter (safe_mod_to_reload unsafe) (safe_dir_modified modified)"

definition unsafe_mod_modified :: "string list \<Rightarrow> string list \<Rightarrow> string list" where
  "unsafe_mod_modified unsafe modified =
     filter (\<lambda>md. md \<notin> set (safe_modified unsafe modified))
       (safe_dir_modified modified)"

subsection \<open>Exceptions and state\<close>

text \<open>
  A Python exception is a value of \<open>pyerror\<close>. \<open>Raised name\<close> is an exception raised
  by a collaborator that is not part of this module (the database managers, the module
  loader, the caches of other modules, the channel); the other three are raised by the
  interpreter on a missing attribute, on indexing \<^verbatim>\<open>None\<close> and on indexing an empty
  tuple.

  A statement that runs in a state of type \<open>'s\<close> either returns a value or raises, and
  leaves a state behind in both cases.
\<close>

datatype pyerror = AttributeError | TypeError | IndexError | Raised string

type_synonym ('s, 'a) prog = "'s \<Rightarrow> (pyerror + 'a) \<times> 's"


definition prog_raise :: "pyerror \<Rightarrow> ('s, 'a) prog" where
  "prog_raise e = (\<lambda>s. (Inl e, s))"

text \<open>Sequencing: an exception of the first statement skips the rest.\<close>

definition prog_bind :: "('s, 'a) prog \<Rightarrow> ('a \<Rightarrow> ('s, 'b) prog) \<Rightarrow> ('s, 'b) prog" where
  "prog_bind m f = (\<lambda>s. case m s of (Inl e, s') \<Rightarrow> (Inl e, s') | (Inr v, s') \<Rightarrow> f v s')"

definition prog_then :: "('s, unit) prog \<Rightarrow> ('s, 'b) prog \<Rightarrow> ('s, 'b) prog" where
  "prog_then m n = prog_bind m (\<lambda>_. n)"

subsection \<open>The state of the server and its collaborators\<close>

text \<open>
  The five attributes of Django's \<^verbatim>\<open>AppCache\<close> that lines 61 to 66 overwrite; the
  dictionaries are represented by their lists of keys.
\<close>

record app_cache =
  app_store :: "string list"
  app_models :: "string list"
  app_errors :: "string list"
  handled :: "string list"
  loaded :: bool

text \<open>
  The state this module writes: the messages handed to \<^verbatim>\<open>logger.log_infomsg\<close> in
  order, the \<^verbatim>\<open>AppCache\<close>, the keys of \<^verbatim>\<open>cmdsethandler.CACHED_CMDSETS\<close>, and
  the state \<open>ext\<close> of the collaborators, of which this module knows nothing.
\<close>

record 'x world =
  infolog :: "string list"
  appcache :: app_cache
  CACHED_CMDSETS :: "string list"
  ext :: "'x"

text \<open>A \<^verbatim>\<open>Channel\<close> object; \<^verbatim>\<open>cemit_info\<close> reads its \<^verbatim>\<open>key\<close>.\<close>

record channel =
  key :: string

text \<open>
  The collaborators are parameters. Each call may raise and may change the
  collaborators' state. \<open>CHANNEL_MUDINFO\<close> is the read of the setting: \<open>Inl\<close> when
  the attribute is missing, \<open>Inr None\<close> when it is \<^verbatim>\<open>None\<close>, otherwise a tuple of
  strings whose first component names the channel. \<open>run_async\<close> is the call
  \<^verbatim>\<open>utils.run_async(run_reset_loop, at_return, at_err)\<close>, which hands the sweep to
  another thread and returns.
\<close>

record 'x env =
  CHANNEL_MUDINFO :: "pyerror + string list option"
  get_channel :: "string \<Rightarrow> ('x, channel option) prog"
  channel_msg :: "channel \<Rightarrow> string \<Rightarrow> ('x, unit) prog"
  get_all_scripts :: "('x, script list) prog"
  reimport_modified :: "('x, string list) prog"
  reimport_reimport :: "string list \<Rightarrow> ('x, unit) prog"
  typeclassmodels_reset :: "('x, unit) prog"
  EXITHANDLER_clear :: "('x, unit) prog"
  CHANNELHANDLER_update :: "('x, unit) prog"
  run_async :: "('x, unit) prog"
  validate :: "script list option \<Rightarrow> string option \<Rightarrow> string option \<Rightarrow> string option \<Rightarrow> bool
                 \<Rightarrow> ('x, nat \<times> nat) prog"

text \<open>A call of a collaborator from this module.\<close>

definition call :: "('x, 'a) prog \<Rightarrow> ('x world, 'a) prog" where
  "call op = (\<lambda>w. case op (ext w) of (r, x') \<Rightarrow> (r, w\<lparr>ext := x'\<rparr>))"

text \<open>
  Modelled from the spec: \<^verbatim>\<open>logger.log_infomsg\<close> is not part of this module. The
  durable log accepts arbitrary text and the reporter always logs the message: the call
  appends its argument to the log and does not raise.
\<close>

definition log_infomsg :: "string \<Rightarrow> ('x world, unit) prog" where
  "log_infomsg message = (\<lambda>w. (Inr (), w\<lparr>infolog := infolog w @ [message]\<rparr>))"

subsection \<open>Python string operations\<close>

abbreviation nl :: char where
  "nl \<equiv> CHR 0x0A"

text \<open>\<^verbatim>\<open>s.split(c)\<close> for a one-character separator: never empty, one more piece than
  there are separators.\<close>

fun str_split :: "char \<Rightarrow> string \<Rightarrow> string list" where
  "str_split c [] = [] # []"
| "str_split c (x # xs) =
     (if x = c then [] # str_split c xs
      else (case str_split c xs of
              [] \<Rightarrow> [x] # []
            | line # lines \<Rightarrow> (x # line) # lines))"

text \<open>\<^verbatim>\<open>sep.join(xs)\<close>.\<close>

fun str_join :: "string \<Rightarrow> string list \<Rightarrow> string" where
  "str_join sep [] = []"
| "str_join sep [x] = x"
| "str_join sep (x # y # zs) = x @ sep @ str_join sep (y # zs)"



subsection \<open>cemit_info\<close>

text \<open>
  The values the variable \<^verbatim>\<open>infochan\<close> takes: \<^verbatim>\<open>None\<close>, the tuple read from the
  settings, or the channel object returned by the lookup.
\<close>

datatype infochan = NoneVal | TupleVal "string list" | ChannelVal channel

text \<open>
  Lines 153 to 158: the assignment \<^verbatim>\<open>infochan = None\<close> and the \<^verbatim>\<open>try\<close> block,
  whose \<^verbatim>\<open>except Exception: pass\<close> catches everything. The result is the value of
  \<^verbatim>\<open>infochan\<close> after the block: an exception leaves the variable as the last
  completed assignment set it.
\<close>

definition lookup_infochan :: "'x env \<Rightarrow> 'x \<Rightarrow> infochan \<times> 'x" where
  "lookup_infochan env x =
     (case CHANNEL_MUDINFO env of
        Inl e \<Rightarrow> (NoneVal, x)
      | Inr None \<Rightarrow> (NoneVal, x)
      | Inr (Some []) \<Rightarrow> (TupleVal [], x)
      | Inr (Some (name # rest)) \<Rightarrow>
          (case get_channel env name x of
             (Inl e, x') \<Rightarrow> (TupleVal (name # rest), x')
           | (Inr None, x') \<Rightarrow> (NoneVal, x')
           | (Inr (Some chan), x') \<Rightarrow> (ChannelVal chan, x')))"

text \<open>Line 159, \<^verbatim>\<open>if infochan:\<close>. A model object is true, an empty tuple is false.\<close>

fun truthy :: "infochan \<Rightarrow> bool" where
  "truthy NoneVal = False"
| "truthy (TupleVal t) = (t \<noteq> [])"
| "truthy (ChannelVal chan) = True"

text \<open>Lines 161 and 164: the two formats of the message, line by line.\<close>

definition channel_format :: "string \<Rightarrow> string \<Rightarrow> string" where
  "channel_format cname message =
     str_join [nl] (map (\<lambda>line. ''['' @ cname @ '']: '' @ line) (str_split nl message))"

definition no_channel_format :: "string \<Rightarrow> string" where
  "no_channel_format message =
     str_join [nl] (map (\<lambda>line. ''[NO MUDINFO CHANNEL]: '' @ line) (str_split nl message))"

text \<open>
  Lines 146 to 165. In the true branch \<^verbatim>\<open>infochan.key\<close> is read first: a tuple has
  no such attribute.
\<close>

definition cemit_info :: "'x env \<Rightarrow> string \<Rightarrow> ('x world, unit) prog" where
  "cemit_info env message =
     prog_then (log_infomsg message)
       (prog_bind (call (\<lambda>x. case lookup_infochan env x of (v, x') \<Rightarrow> (Inr v, x')))
          (\<lambda>infochan.
             if truthy infochan then
               (case infochan of
                  ChannelVal chan \<Rightarrow>
                    call (channel_msg env chan (channel_format (key chan) message))
                | TupleVal t \<Rightarrow> prog_raise AttributeError
                | NoneVal \<Rightarrow> prog_raise AttributeError)
             else log_infomsg (no_channel_format message)))"

subsection \<open>reload_modules\<close>






subsection \<open>reload_scripts and reload_commands\<close>



subsection \<open>The reset loop\<close>

text \<open>
  What the loop sees of a database row: its stored fields \<open>durable\<close> and the state
  of its lock handler \<^verbatim>\<open>locks\<close>; an \<^verbatim>\<open>ObjectDB\<close> row has a command-set handler
  \<^verbatim>\<open>cmdset\<close> as well. Scripts, players, help entries, messages and channels are
  entities; the loop never touches a \<^verbatim>\<open>cmdset\<close> on them.
\<close>

record ('d, 'l) entity =
  durable :: 'd
  locks :: 'l

record ('d, 'l, 'c) objectdb = "('d, 'l) entity" +
  cmdset :: 'c

text \<open>
  The two \<^verbatim>\<open>reset()\<close> methods belong to the handlers, which are not part of this
  module: they are parameters. A handler holds a reference to its owner, so a reset
  runs on the owner's stored fields and the handler's own state, may change both and
  may raise.
\<close>

record ('d, 'l, 'c) handlers =
  cmdset_reset :: "('d \<times> 'c, unit) prog"
  locks_reset :: "('d \<times> 'l, unit) prog"

text \<open>\<^verbatim>\<open>o.cmdset.reset()\<close> and \<^verbatim>\<open>o.locks.reset()\<close> on one row.\<close>

definition reset_cmdset ::
  "('d, 'l, 'c) handlers \<Rightarrow> (('d, 'l, 'c) objectdb, unit) prog" where
  "reset_cmdset h ob =
     (case cmdset_reset h (durable ob, cmdset ob) of
        (r, (d', c')) \<Rightarrow> (r, ob\<lparr>durable := d', cmdset := c'\<rparr>))"

definition reset_locks ::
  "('d, 'l, 'c) handlers \<Rightarrow> (('d, 'l, 'z) entity_scheme, unit) prog" where
  "reset_locks h ob =
     (case locks_reset h (durable ob, locks ob) of
        (r, (d', l')) \<Rightarrow> (r, ob\<lparr>durable := d', locks := l'\<rparr>))"

text \<open>
  A list comprehension that calls \<open>f\<close> on every row in order; an exception ends it,
  and the rows after the failing one are not visited.
\<close>

fun for_each :: "('e, unit) prog \<Rightarrow> ('e list, unit) prog" where
  "for_each f [] = (Inr (), [])"
| "for_each f (ob # obs) =
     (case f ob of
        (Inl e, ob') \<Rightarrow> (Inl e, ob' # obs)
      | (Inr u, ob') \<Rightarrow> (case for_each f obs of (r, obs') \<Rightarrow> (r, ob' # obs')))"

text \<open>The rows that the six \<^verbatim>\<open>objects.all()\<close> queries of the loop return.\<close>

record ('d, 'l, 'c) database =
  ObjectDB_all :: "('d, 'l, 'c) objectdb list"
  ScriptDB_all :: "('d, 'l) entity list"
  PlayerDB_all :: "('d, 'l) entity list"
  HelpEntry_all :: "('d, 'l) entity list"
  Msg_all :: "('d, 'l) entity list"
  Channel_all :: "('d, 'l) entity list"

text \<open>Lines 107 to 114, one comprehension per line of the source.\<close>

definition run_reset_loop ::
  "('d, 'l, 'c) handlers \<Rightarrow> (('d, 'l, 'c) database, unit) prog" where
  "run_reset_loop h =
     prog_then (\<lambda>db. case for_each (prog_then (reset_cmdset h) (reset_locks h)) (ObjectDB_all db)
                      of (r, rows) \<Rightarrow> (r, db\<lparr>ObjectDB_all := rows\<rparr>))
    (prog_then (\<lambda>db. case for_each (reset_locks h) (ScriptDB_all db)
                      of (r, rows) \<Rightarrow> (r, db\<lparr>ScriptDB_all := rows\<rparr>))
    (prog_then (\<lambda>db. case for_each (reset_locks h) (PlayerDB_all db)
                      of (r, rows) \<Rightarrow> (r, db\<lparr>PlayerDB_all := rows\<rparr>))
    (prog_then (\<lambda>db. case for_each (reset_locks h) (HelpEntry_all db)
                      of (r, rows) \<Rightarrow> (r, db\<lparr>HelpEntry_all := rows\<rparr>))
    (prog_then (\<lambda>db. case for_each (reset_locks h) (Msg_all db)
                      of (r, rows) \<Rightarrow> (r, db\<lparr>Msg_all := rows\<rparr>))
               (\<lambda>db. case for_each (reset_locks h) (Channel_all db)
                      of (r, rows) \<Rightarrow> (r, db\<lparr>Channel_all := rows\<rparr>))))))"

subsection \<open>Vocabulary for the properties\<close>

text \<open>
  A statement \<open>returns\<close> when it raises in no state, \<open>yields v\<close> when it returns
  \<open>v\<close> in every state, and \<open>raises e\<close> when it raises \<open>e\<close> in every state.
\<close>

definition returns :: "('s, 'a) prog \<Rightarrow> bool" where
  "returns m = (\<forall>s. \<exists>v s'. m s = (Inr v, s'))"

definition yields :: "'a \<Rightarrow> ('s, 'a) prog \<Rightarrow> bool" where
  "yields v m = (\<forall>s. \<exists>s'. m s = (Inr v, s'))"





text \<open>
  No channel is resolved, without any exception of the lookup itself: the setting is
  missing, \<^verbatim>\<open>None\<close> or an empty tuple, or \<^verbatim>\<open>get_channel\<close> returns \<^verbatim>\<open>None\<close>.
\<close>

definition no_channel_resolved :: "'x env \<Rightarrow> 'x \<Rightarrow> bool" where
  "no_channel_resolved env x =
     (case CHANNEL_MUDINFO env of
        Inl e \<Rightarrow> True
      | Inr None \<Rightarrow> True
      | Inr (Some []) \<Rightarrow> True
      | Inr (Some (name # rest)) \<Rightarrow> fst (get_channel env name x) = Inr None)"

text \<open>
  Modelled from the spec: the durable log accepts text lines. The lines of the log are
  the lines of the messages written to it, in the order of the writes.
\<close>

definition log_lines :: "'x world \<Rightarrow> string list" where
  "log_lines w = concat (map (str_split nl) (infolog w))"



subsection \<open>Example collaborators\<close>

text \<open>
  Collaborators for concrete runs. Their state is the list of the calls made so far; the
  call named \<open>bad\<close> raises, every other call returns.
\<close>

definition traced :: "string \<Rightarrow> string \<Rightarrow> 'a \<Rightarrow> (string list, 'a) prog" where
  "traced bad name v =
     (\<lambda>calls. (if name = bad then Inl (Raised name) else Inr v, calls @ [name]))"

definition example_env ::
  "string \<Rightarrow> string list option \<Rightarrow> channel option \<Rightarrow> script list \<Rightarrow> string list
     \<Rightarrow> (string list) env" where
  "example_env bad setting chan all_scripts modified =
     \<lparr>CHANNEL_MUDINFO = Inr setting,
      get_channel = (\<lambda>name. traced bad ''get_channel'' chan),
      channel_msg = (\<lambda>c text. traced bad ''msg'' ()),
      get_all_scripts = traced bad ''get_all_scripts'' all_scripts,
      reimport_modified = traced bad ''modified'' modified,
      reimport_reimport = (\<lambda>mods. traced bad ''reimport'' ()),
      typeclassmodels_reset = traced bad ''typeclassmodels.reset'' (),
      EXITHANDLER_clear = traced bad ''EXITHANDLER.clear'' (),
      CHANNELHANDLER_update = traced bad ''CHANNELHANDLER.update'' (),
      run_async = traced bad ''run_async'' (),
      validate = (\<lambda>scripts obj skey dbref init_mode. traced bad ''validate'' (1, 0))\<rparr>"

definition example_world :: "(string list) world" where
  "example_world =
     \<lparr>infolog = [],
      appcache = \<lparr>app_store = [''objects''], app_models = [''objects''], app_errors = [],
                  handled = [''src.objects''], loaded = True\<rparr>,
      CACHED_CMDSETS = [''src.commands.default.cmdset_default.DefaultCmdSet''],
      ext = []\<rparr>"



text \<open>
  Handlers whose lock reset also writes a stored field of its owner.
\<close>

definition writing_handlers :: "(string, nat, nat) handlers" where
  "writing_handlers =
     \<lparr>cmdset_reset = (\<lambda>(d, c). (Inr (), (d, Suc c))),
      locks_reset = (\<lambda>(d, l). (Inr (), (d @ ''*'', Suc l)))\<rparr>"

definition example_database :: "(string, nat, nat) database" where
  "example_database =
     \<lparr>ObjectDB_all = [\<lparr>durable = ''room'', locks = 0, cmdset = 0\<rparr>,
                      \<lparr>durable = ''exit'', locks = 0, cmdset = 0\<rparr>],
      ScriptDB_all = [\<lparr>durable = ''timer'', locks = 0\<rparr>],
      PlayerDB_all = [\<lparr>durable = ''admin'', locks = 0\<rparr>],
      HelpEntry_all = [\<lparr>durable = ''help'', locks = 0\<rparr>],
      Msg_all = [\<lparr>durable = ''hello'', locks = 0\<rparr>],
      Channel_all = [\<lparr>durable = ''MUDinfo'', locks = 0\<rparr>]\<rparr>"

section \<open>Properties of the classifier\<close>

lemma in_safe_dir_modified:
  "m \<in> set (safe_dir_modified ms) \<longleftrightarrow> m \<in> set ms \<and> safe_dir_to_reload m"
  by (simp add: safe_dir_modified_def)

lemma in_unsafe_dir_modified:
  "m \<in> set (unsafe_dir_modified ms) \<longleftrightarrow> m \<in> set ms \<and> \<not> safe_dir_to_reload m"
  by (auto simp: unsafe_dir_modified_def in_safe_dir_modified)

lemma in_safe_modified:
  "m \<in> set (safe_modified u ms) \<longleftrightarrow>
     m \<in> set ms \<and> safe_dir_to_reload m \<and> safe_mod_to_reload u m"
  by (auto simp: safe_modified_def in_safe_dir_modified)

lemma in_unsafe_mod_modified:
  "m \<in> set (unsafe_mod_modified u ms) \<longleftrightarrow>
     m \<in> set ms \<and> safe_dir_to_reload m \<and> \<not> safe_mod_to_reload u m"
  by (auto simp: unsafe_mod_modified_def in_safe_modified in_safe_dir_modified)

text \<open>The paths collected by the loop, whatever the accumulator holds at its start.\<close>

lemma set_collect_unsafe:
  "set (collect_unsafe acc ss) =
     set acc \<union> {p. \<exists>s. s \<in> set ss \<and> interval s > -1 \<and> typeclass_path s = Some p \<and> p \<noteq> []}"
proof (induction ss arbitrary: acc)
  case Nil
  show ?case by simp
next
  case (Cons s ss)
  show ?case
  proof (cases "typeclass_path s")
    case None
    then show ?thesis using Cons.IH by auto
  next
    case (Some q)
    then show ?thesis using Cons.IH by (cases "q = []") auto
  qed
qed

lemma set_unsafe_modules:
  "set (unsafe_modules ss) =
     {p. \<exists>s. s \<in> set ss \<and> interval s > -1 \<and> typeclass_path s = Some p \<and> p \<noteq> []}"
  by (simp add: unsafe_modules_def set_collect_unsafe)

lemma collect_unsafe_is_active:
  "collect_unsafe acc (map (\<lambda>s. s\<lparr>is_active := running s\<rparr>) ss) = collect_unsafe acc ss"
  by (induction ss arbitrary: acc) (auto split: option.splits)

lemma safe_dir_under_exception:
  "edir \<in> set except_dirs \<Longrightarrow> startswith m edir \<Longrightarrow> safe_dir_to_reload m"
  by (auto simp: safe_dir_to_reload_def list_ex_iff)

lemma exception_under_protected:
  "edir \<in> set except_dirs \<Longrightarrow> startswith m edir \<Longrightarrow> \<exists>pdir. pdir \<in> set protected_dirs \<and> startswith m pdir"
  by (auto simp: except_dirs_def protected_dirs_def startswith_def prefix_def)

lemma timer_unsafe:
  assumes "s \<in> set ss" "interval s > -1" "typeclass_path s = Some p" "p \<noteq> []"
    and "startswith p m"
  shows "\<not> safe_mod_to_reload (unsafe_modules ss) m"
proof -
  have "p \<in> set (unsafe_modules ss)"
    using assms(1-4) by (auto simp: set_unsafe_modules)
  with assms(5) show ?thesis
    by (auto simp: safe_mod_to_reload_def list_ex_iff)
qed

text \<open>
  C1. Whatever the list of modified modules and the scripts, the three lists
  \<open>safe_modified\<close>, \<open>unsafe_dir_modified\<close> and \<open>unsafe_mod_modified\<close> hold together
  exactly the modified identifiers, and no identifier is in two of them.
\<close>

theorem classification_partition:
  "set (safe_modified (unsafe_modules ss) ms) \<union> set (unsafe_dir_modified ms)
      \<union> set (unsafe_mod_modified (unsafe_modules ss) ms) = set ms
   \<and> set (safe_modified (unsafe_modules ss) ms) \<inter> set (unsafe_dir_modified ms) = {}
   \<and> set (safe_modified (unsafe_modules ss) ms)
        \<inter> set (unsafe_mod_modified (unsafe_modules ss) ms) = {}
   \<and> set (unsafe_dir_modified ms) \<inter> set (unsafe_mod_modified (unsafe_modules ss) ms) = {}"
  by (auto simp: in_safe_modified in_unsafe_dir_modified in_unsafe_mod_modified)

text \<open>
  C2, as stated, fails: \<open>src.scripts.scripts\<close> is a prefix of the typeclass path of a
  script with interval 60, yet it lies under the protected prefix \<open>src.\<close> and under
  no exception prefix, and the classifier puts it in \<open>unsafe_dir_modified\<close>, not in
  \<open>unsafe_mod_modified\<close>.
\<close>

theorem timer_rule_overridden_by_protected_dir:
  "startswith ''src.scripts.scripts.CheckSessions'' ''src.scripts.scripts''
   \<and> ''src.scripts.scripts''
        \<notin> set (unsafe_mod_modified
                 (unsafe_modules [\<lparr>interval = 60,
                                   typeclass_path = Some ''src.scripts.scripts.CheckSessions'',
                                   is_active = True\<rparr>])
                 [''src.scripts.scripts''])
   \<and> unsafe_dir_modified [''src.scripts.scripts''] = [''src.scripts.scripts'']"
  by code_simp

text \<open>
  C2, amended. A modified identifier that is a prefix of the non-empty typeclass path of
  a script with interval above \<open>-1\<close> is in \<open>unsafe_mod_modified\<close> when it passes the
  directory check (it is under no protected prefix, or under an exception prefix). When
  it does not pass the directory check it is in \<open>unsafe_dir_modified\<close> and not in
  \<open>unsafe_mod_modified\<close>.
\<close>

theorem timer_rule_after_dir_rule:
  assumes "m \<in> set ms" and "s \<in> set ss" and "interval s > -1"
    and "typeclass_path s = Some p" and "p \<noteq> []" and "startswith p m"
  shows "(safe_dir_to_reload m \<longrightarrow> m \<in> set (unsafe_mod_modified (unsafe_modules ss) ms))
       \<and> (\<not> safe_dir_to_reload m \<longrightarrow>
            m \<in> set (unsafe_dir_modified ms)
            \<and> m \<notin> set (unsafe_mod_modified (unsafe_modules ss) ms))"
  using assms(1) timer_unsafe[OF assms(2-6)]
  by (simp add: in_unsafe_mod_modified in_unsafe_dir_modified)

theorem timer_rule_after_dir_rule_witness:
  "''game.gamesrc.scripts''
     \<in> set (unsafe_mod_modified
              (unsafe_modules [\<lparr>interval = 60,
                                typeclass_path = Some ''game.gamesrc.scripts.Weather'',
                                is_active = False\<rparr>])
              [''game.gamesrc.scripts'', ''src.scripts.scripts''])
   \<and> ''src.scripts.scripts''
     \<in> set (unsafe_dir_modified [''game.gamesrc.scripts'', ''src.scripts.scripts''])
   \<and> ''src.scripts.scripts''
     \<notin> set (unsafe_mod_modified
              (unsafe_modules [\<lparr>interval = 0,
                                typeclass_path = Some ''src.scripts.scripts.CheckSessions'',
                                is_active = True\<rparr>])
              [''game.gamesrc.scripts'', ''src.scripts.scripts''])"
proof -
  have a: "safe_dir_to_reload ''game.gamesrc.scripts''"
    by code_simp
  have b: "\<not> safe_dir_to_reload ''src.scripts.scripts''"
    by code_simp
  have c: "startswith ''game.gamesrc.scripts.Weather'' ''game.gamesrc.scripts''"
    by code_simp
  have d: "startswith ''src.scripts.scripts.CheckSessions'' ''src.scripts.scripts''"
    by code_simp
  show ?thesis
    using a b
      timer_rule_after_dir_rule
        [of "''game.gamesrc.scripts''" "[''game.gamesrc.scripts'', ''src.scripts.scripts'']"
            "\<lparr>interval = 60, typeclass_path = Some ''game.gamesrc.scripts.Weather'',
              is_active = False\<rparr>"
            "[\<lparr>interval = 60, typeclass_path = Some ''game.gamesrc.scripts.Weather'',
               is_active = False\<rparr>]"
            "''game.gamesrc.scripts.Weather''", OF _ _ _ _ _ c]
      timer_rule_after_dir_rule
        [of "''src.scripts.scripts''" "[''game.gamesrc.scripts'', ''src.scripts.scripts'']"
            "\<lparr>interval = 0, typeclass_path = Some ''src.scripts.scripts.CheckSessions'',
              is_active = True\<rparr>"
            "[\<lparr>interval = 0, typeclass_path = Some ''src.scripts.scripts.CheckSessions'',
               is_active = True\<rparr>]"
            "''src.scripts.scripts.CheckSessions''", OF _ _ _ _ _ d]
    by simp
qed

text \<open>
  C3. A modified identifier that starts with an exception prefix also starts with a
  protected prefix, is never in \<open>unsafe_dir_modified\<close>, and is in \<open>safe_modified\<close>
  when no path of a timed script starts with it.
\<close>

theorem exception_overrides_protected:
  assumes "edir \<in> set except_dirs" and "startswith m edir" and "m \<in> set ms"
  shows "(\<exists>pdir. pdir \<in> set protected_dirs \<and> startswith m pdir)
       \<and> m \<notin> set (unsafe_dir_modified ms)
       \<and> (safe_mod_to_reload (unsafe_modules ss) m
            \<longrightarrow> m \<in> set (safe_modified (unsafe_modules ss) ms))"
  using assms(3) safe_dir_under_exception[OF assms(1,2)] exception_under_protected[OF assms(1,2)]
  by (simp add: in_unsafe_dir_modified in_safe_modified)

theorem exception_overrides_protected_witness:
  "(\<exists>pdir. pdir \<in> set protected_dirs \<and> startswith ''src.commands.default.general'' pdir)
   \<and> ''src.commands.default.general''
       \<notin> set (unsafe_dir_modified [''src.commands.default.general'', ''src.server.server''])
   \<and> ''src.commands.default.general''
       \<in> set (safe_modified
                (unsafe_modules [\<lparr>interval = 60,
                                  typeclass_path = Some ''game.gamesrc.scripts.Weather'',
                                  is_active = True\<rparr>])
                [''src.commands.default.general'', ''src.server.server''])"
proof -
  have a: "''src.commands.default.'' \<in> set except_dirs"
    by (simp add: except_dirs_def)
  have b: "startswith ''src.commands.default.general'' ''src.commands.default.''"
    by code_simp
  have c: "safe_mod_to_reload
             (unsafe_modules [\<lparr>interval = 60,
                               typeclass_path = Some ''game.gamesrc.scripts.Weather'',
                               is_active = True\<rparr>])
             ''src.commands.default.general''"
    by code_simp
  show ?thesis
    using c exception_overrides_protected
        [OF a b, of "[''src.commands.default.general'', ''src.server.server'']"
           "[\<lparr>interval = 60, typeclass_path = Some ''game.gamesrc.scripts.Weather'',
              is_active = True\<rparr>]"]
    by simp
qed

text \<open>
  C4. A modified identifier that starts with an exception prefix and is a prefix of the
  typeclass path of a script with interval above \<open>-1\<close> is in \<open>unsafe_mod_modified\<close>
  and not in \<open>safe_modified\<close>.
\<close>

theorem timer_rule_overrides_exception:
  assumes "m \<in> set ms" and "edir \<in> set except_dirs" and "startswith m edir"
    and "s \<in> set ss" and "interval s > -1" and "typeclass_path s = Some p"
    and "startswith p m"
  shows "m \<in> set (unsafe_mod_modified (unsafe_modules ss) ms)
       \<and> m \<notin> set (safe_modified (unsafe_modules ss) ms)"
proof -
  have "m \<noteq> []"
    using assms(2,3) by (auto simp: except_dirs_def startswith_def)
  with assms(7) have "p \<noteq> []"
    by (auto simp: startswith_def)
  from timer_unsafe[OF assms(4-6) this assms(7)] assms(1)
    safe_dir_under_exception[OF assms(2,3)]
  show ?thesis
    by (simp add: in_unsafe_mod_modified in_safe_modified)
qed

theorem timer_rule_overrides_exception_witness:
  "''src.commands.default.general''
     \<in> set (unsafe_mod_modified
              (unsafe_modules [\<lparr>interval = 5,
                                typeclass_path = Some ''src.commands.default.general.Ticker'',
                                is_active = True\<rparr>])
              [''src.commands.default.general''])
   \<and> ''src.commands.default.general''
     \<notin> set (safe_modified
              (unsafe_modules [\<lparr>interval = 5,
                                typeclass_path = Some ''src.commands.default.general.Ticker'',
                                is_active = True\<rparr>])
              [''src.commands.default.general''])"
proof -
  have a: "''src.commands.default.'' \<in> set except_dirs"
    by (simp add: except_dirs_def)
  have b: "startswith ''src.commands.default.general'' ''src.commands.default.''"
    by code_simp
  have c: "startswith ''src.commands.default.general.Ticker'' ''src.commands.default.general''"
    by code_simp
  show ?thesis
    using timer_rule_overrides_exception
        [of "''src.commands.default.general''" "[''src.commands.default.general'']"
            "''src.commands.default.''"
            "\<lparr>interval = 5, typeclass_path = Some ''src.commands.default.general.Ticker'',
              is_active = True\<rparr>"
            "[\<lparr>interval = 5, typeclass_path = Some ''src.commands.default.general.Ticker'',
               is_active = True\<rparr>]"
            "''src.commands.default.general.Ticker''", OF _ a b _ _ _ c]
    by simp
qed

text \<open>
  C10. The paths used for the timer check are, without duplicates, the typeclass paths
  of the scripts with interval above \<open>-1\<close> and a path that is present and not empty.
  Whether a script is running changes nothing.
\<close>

theorem unsafe_modules_exact:
  "set (unsafe_modules ss) =
     {p. \<exists>s. s \<in> set ss \<and> interval s > -1 \<and> typeclass_path s = Some p \<and> p \<noteq> []}
   \<and> distinct (unsafe_modules ss)
   \<and> unsafe_modules (map (\<lambda>s. s\<lparr>is_active := running s\<rparr>) ss) = unsafe_modules ss"
  by (simp add: unsafe_modules_def set_collect_unsafe collect_unsafe_is_active)

section \<open>Properties of statements\<close>

lemma yields_returns: "yields v m \<Longrightarrow> returns m"
  unfolding yields_def returns_def by blast








lemma returns_log_infomsg: "returns (log_infomsg message)"
  by (simp add: returns_def log_infomsg_def)











section \<open>Properties of cemit_info\<close>

lemma no_channel_lookup:
  "no_channel_resolved env x \<Longrightarrow> \<not> truthy (fst (lookup_infochan env x))"
  by (auto simp: no_channel_resolved_def lookup_infochan_def
           split: sum.splits option.splits list.splits prod.splits)

lemma cemit_info_no_channel:
  assumes "no_channel_resolved env (ext w)"
  shows "fst (cemit_info env message w) = Inr ()"
    and "infolog (snd (cemit_info env message w)) = infolog w @ [message, no_channel_format message]"
    and "appcache (snd (cemit_info env message w)) = appcache w"
  using no_channel_lookup[OF assms]
  by (auto simp: cemit_info_def prog_then_def prog_bind_def log_infomsg_def call_def
           split: prod.splits sum.splits)

lemma cemit_info_channel:
  assumes "CHANNEL_MUDINFO env = Inr (Some (name # rest))"
    and "get_channel env name (ext w) = (Inr (Some chan), x')"
  shows "cemit_info env message w =
           (case channel_msg env chan (channel_format (key chan) message) x' of
              (r, x'') \<Rightarrow> (r, w\<lparr>infolog := infolog w @ [message], ext := x''\<rparr>))"
  using assms
  by (auto simp: cemit_info_def prog_then_def prog_bind_def log_infomsg_def call_def lookup_infochan_def
           split: prod.splits sum.splits)



text \<open>
  When the lookup itself raises while the setting is a non-empty tuple, the variable
  \<^verbatim>\<open>infochan\<close> still holds the tuple, which is true, and reading its
  \<^verbatim>\<open>key\<close> raises out of \<^verbatim>\<open>cemit_info\<close>.
\<close>

lemma lookup_exception_leaves_tuple:
  "fst (cemit_info (example_env ''get_channel'' (Some [''MUDinfo'']) None [] [])
          ''hello'' example_world) = Inl AttributeError"
  by code_simp

text \<open>
  C7, as stated, fails: with a channel resolved and a send that raises, the exception
  of the send leaves \<^verbatim>\<open>cemit_info\<close>.
\<close>

theorem send_failure_leaves_cemit_info:
  "fst (cemit_info (example_env ''msg'' (Some [''MUDinfo'']) (Some \<lparr>key = ''MUDinfo''\<rparr>) [] [])
          ''hello'' example_world) = Inl (Raised ''msg'')"
  by code_simp

text \<open>
  C7, amended. For every message: when no channel is resolved (the setting is missing,
  \<^verbatim>\<open>None\<close> or empty, or the lookup returns \<^verbatim>\<open>None\<close>) the reporter returns,
  having logged the message and then its no-channel variant. When a channel is resolved,
  the reporter logs the message, sends the tagged text, and ends as the send ends: it
  returns when the send returns and raises the exception of the send when the send
  raises.
\<close>

theorem cemit_info_raises_with_send:
  "(no_channel_resolved env (ext w) \<longrightarrow>
      fst (cemit_info env message w) = Inr ()
      \<and> infolog (snd (cemit_info env message w)) = infolog w @ [message, no_channel_format message])
   \<and> (CHANNEL_MUDINFO env = Inr (Some (name # rest))
        \<and> get_channel env name (ext w) = (Inr (Some chan), x')
        \<and> channel_msg env chan (channel_format (key chan) message) x' = (r, x'')
      \<longrightarrow> cemit_info env message w = (r, w\<lparr>infolog := infolog w @ [message], ext := x''\<rparr>))"
proof (intro conjI impI)
  assume n: "no_channel_resolved env (ext w)"
  show "fst (cemit_info env message w) = Inr ()"
    by (rule cemit_info_no_channel(1)[OF n])
  show "infolog (snd (cemit_info env message w)) = infolog w @ [message, no_channel_format message]"
    by (rule cemit_info_no_channel(2)[OF n])
next
  assume "CHANNEL_MUDINFO env = Inr (Some (name # rest))
        \<and> get_channel env name (ext w) = (Inr (Some chan), x')
        \<and> channel_msg env chan (channel_format (key chan) message) x' = (r, x'')"
  then show "cemit_info env message w = (r, w\<lparr>infolog := infolog w @ [message], ext := x''\<rparr>)"
    using cemit_info_channel[of env name rest w chan x' message] by simp
qed

theorem cemit_info_raises_with_send_witness:
  "fst (cemit_info (example_env [] None None [] []) ''hello'' example_world) = Inr ()
   \<and> infolog (snd (cemit_info (example_env [] None None [] []) ''hello'' example_world))
       = [''hello'', ''[NO MUDINFO CHANNEL]: hello'']
   \<and> cemit_info (example_env ''msg'' (Some [''MUDinfo'']) (Some \<lparr>key = ''MUDinfo''\<rparr>) [] [])
        ''hello'' example_world
       = (Inl (Raised ''msg''),
          example_world\<lparr>infolog := [''hello''], ext := [''get_channel'', ''msg'']\<rparr>)"
proof -
  let ?no = "example_env [] None None [] []"
  let ?ms = "example_env ''msg'' (Some [''MUDinfo'']) (Some \<lparr>key = ''MUDinfo''\<rparr>) [] []"
  have a: "no_channel_resolved ?no (ext example_world)"
    by (simp add: no_channel_resolved_def example_env_def)
  have b: "CHANNEL_MUDINFO ?ms = Inr (Some (''MUDinfo'' # []))
        \<and> get_channel ?ms ''MUDinfo'' (ext example_world)
            = (Inr (Some \<lparr>key = ''MUDinfo''\<rparr>), [''get_channel''])
        \<and> channel_msg ?ms \<lparr>key = ''MUDinfo''\<rparr> (channel_format (key \<lparr>key = ''MUDinfo''\<rparr>) ''hello'')
            [''get_channel''] = (Inl (Raised ''msg''), [''get_channel'', ''msg''])"
    by (simp add: example_env_def example_world_def traced_def)
  have f: "no_channel_format ''hello'' = ''[NO MUDINFO CHANNEL]: hello''"
    by (simp add: no_channel_format_def)
  from cemit_info_raises_with_send[of ?no example_world "''hello''"] a f
  have 1: "fst (cemit_info ?no ''hello'' example_world) = Inr ()
      \<and> infolog (snd (cemit_info ?no ''hello'' example_world))
          = [''hello'', ''[NO MUDINFO CHANNEL]: hello'']"
    by (simp add: example_world_def)
  from cemit_info_raises_with_send
         [of ?ms example_world "''hello''" "''MUDinfo''" "[]" "\<lparr>key = ''MUDinfo''\<rparr>"
             "[''get_channel'']" "Inl (Raised ''msg'')" "[''get_channel'', ''msg'']"] b
  have 2: "cemit_info ?ms ''hello'' example_world
       = (Inl (Raised ''msg''),
          example_world\<lparr>infolog := [''hello''], ext := [''get_channel'', ''msg'']\<rparr>)"
    by (simp add: example_world_def)
  from 1 2 show ?thesis by simp
qed

text \<open>
  C8, as stated, fails: with no channel resolved, the log receives four lines for the
  two-line message. The message itself is logged first, without any marker.
\<close>

theorem raw_message_logged_before_fallback:
  "log_lines (snd (cemit_info (example_env [] None None [] []) (''line1'' @ [nl] @ ''line2'')
                     example_world))
     = [''line1'', ''line2'', ''[NO MUDINFO CHANNEL]: line1'', ''[NO MUDINFO CHANNEL]: line2'']"
  by code_simp

text \<open>
  C8, amended. When the reporter is called with the message of the two lines
  \<open>line1\<close> and \<open>line2\<close> and no channel is resolved, it returns and appends two
  messages to the log: the message as given, and then the two lines each behind the
  marker \<open>[NO MUDINFO CHANNEL]: \<close>, in the original order.
\<close>

theorem two_line_message_without_channel:
  assumes "no_channel_resolved env (ext w)"
  shows "fst (cemit_info env (''line1'' @ [nl] @ ''line2'') w) = Inr ()
       \<and> infolog (snd (cemit_info env (''line1'' @ [nl] @ ''line2'') w))
           = infolog w @ [''line1'' @ [nl] @ ''line2'',
                          ''[NO MUDINFO CHANNEL]: line1'' @ [nl] @ ''[NO MUDINFO CHANNEL]: line2'']
       \<and> log_lines (snd (cemit_info env (''line1'' @ [nl] @ ''line2'') w))
           = log_lines w @ [''line1'', ''line2'',
                            ''[NO MUDINFO CHANNEL]: line1'', ''[NO MUDINFO CHANNEL]: line2'']"
proof -
  have f: "no_channel_format (''line1'' @ [nl] @ ''line2'')
             = ''[NO MUDINFO CHANNEL]: line1'' @ [nl] @ ''[NO MUDINFO CHANNEL]: line2''"
    by (simp add: no_channel_format_def)
  have l: "infolog (snd (cemit_info env (''line1'' @ [nl] @ ''line2'') w))
           = infolog w @ [''line1'' @ [nl] @ ''line2'',
                          ''[NO MUDINFO CHANNEL]: line1'' @ [nl] @ ''[NO MUDINFO CHANNEL]: line2'']"
    unfolding cemit_info_no_channel(2)[OF assms] f ..
  have "log_lines (snd (cemit_info env (''line1'' @ [nl] @ ''line2'') w))
           = log_lines w @ [''line1'', ''line2'',
                            ''[NO MUDINFO CHANNEL]: line1'', ''[NO MUDINFO CHANNEL]: line2'']"
    unfolding log_lines_def l by simp
  with l cemit_info_no_channel(1)[OF assms] show ?thesis by simp
qed

theorem two_line_message_without_channel_witness:
  "log_lines (snd (cemit_info (example_env [] (Some [''MUDinfo'']) None [] [])
                     (''line1'' @ [nl] @ ''line2'') example_world))
     = [''line1'', ''line2'', ''[NO MUDINFO CHANNEL]: line1'', ''[NO MUDINFO CHANNEL]: line2'']"
proof -
  have a: "no_channel_resolved (example_env [] (Some [''MUDinfo'']) None [] []) (ext example_world)"
    by (simp add: no_channel_resolved_def example_env_def traced_def)
  have b: "log_lines example_world = []"
    by (simp add: log_lines_def example_world_def)
  from two_line_message_without_channel[OF a] b show ?thesis by simp
qed

section \<open>Properties of the entry points\<close>
















section \<open>Properties of the reset loop\<close>














text \<open>
  The loop passes on to the rows what the resets do to them: a reset that writes a stored
  field of its owner changes that field.
\<close>

lemma writing_reset_changes_stored_field:
  "map durable (ScriptDB_all (snd (run_reset_loop writing_handlers example_database))) = [''timer*'']"
  by code_simp




end
